theory Spec2Isabelle
  imports Main "HOL-Library.AList"
begin

section \<open>JavaScript values used by the pages\<close>

text \<open>
  A JavaScript string is a sequence of code units; \<^typ>\<open>string\<close> stands for it, one
  \<^typ>\<open>char\<close> for one code unit (every literal of the source is ASCII). A value that may
  be \<^verbatim>\<open>null\<close> or \<^verbatim>\<open>undefined\<close> is an \<^typ>\<open>'a option\<close>. A promise that
  rejects with \<^verbatim>\<open>new Error(msg)\<close> is \<open>Inl msg\<close>, one that resolves with \<open>v\<close> is
  \<open>Inr v\<close>.
\<close>

type_synonym 'a outcome = "string + 'a"

definition truthy :: "string option \<Rightarrow> bool" where
  \<comment> \<open>a string-or-null in a condition: \<^verbatim>\<open>null\<close>, \<^verbatim>\<open>undefined\<close> and \<^verbatim>\<open>''\<close> are falsy\<close>
  "truthy v = (case v of None \<Rightarrow> False | Some s \<Rightarrow> s \<noteq> [])"

definition truthy_id :: "int option \<Rightarrow> bool" where
  \<comment> \<open>a number-or-undefined in a condition: \<^verbatim>\<open>undefined\<close> and \<^verbatim>\<open>0\<close> are falsy\<close>
  "truthy_id v = (case v of None \<Rightarrow> False | Some n \<Rightarrow> n \<noteq> 0)"

fun str_includes :: "string \<Rightarrow> string \<Rightarrow> bool" where
  \<comment> \<open>\<^verbatim>\<open>s.includes(sub)\<close>: \<open>sub\<close> occurs in \<open>s\<close> at some position\<close>
  "str_includes [] sub = (sub = [])"
| "str_includes (c # cs) sub = (take (length sub) (c # cs) = sub \<or> str_includes cs sub)"

subsection \<open>truncateText\<close>

text \<open>
  \<^verbatim>\<open>
  const truncateText = (text, maxLength) => {
    if (!text) return '';
    return text.length > maxLength ? text.substring(0, maxLength) + '...' : text;
  };
  \<close>
  \<open>maxLength\<close> is a length (the page passes 40 and 25), hence a natural number;
  \<^verbatim>\<open>substring(0, n)\<close> of a string longer than \<open>n\<close> is \<open>take n\<close>.
\<close>

definition truncateText :: "string option \<Rightarrow> nat \<Rightarrow> string" where
  "truncateText text maxLength =
     (if \<not> truthy text then []
      else if length (the text) > maxLength then take maxLength (the text) @ ''...''
      else the text)"

section \<open>The browser and the backend\<close>

text \<open>
  The pages act on three things outside their own state: the browser's local storage,
  the router (\<^verbatim>\<open>navigate\<close>) and the backend. The storage is a map; the router and
  the network are logs, so that a theorem can say which requests a handler has sent and
  in which order. The service functions of \<^verbatim>\<open>officerEventService\<close> and
  \<^verbatim>\<open>userService\<close> are not part of the pages: a handler takes what each awaited call
  settles to as an argument, and records the call in \<open>requests\<close>.
\<close>

type_synonym storage = "string \<rightharpoonup> string"

type_synonym event_form = "(string \<times> string) list"

type_synonym profile_form = "(string \<times> string) list"

datatype endpoint =
    ApproveEndpoint "int option"       \<comment> \<open>\<^verbatim>\<open>${API_URL}/events/${eventId}/approve\<close>\<close>
  | ParticipantsEndpoint "int option"  \<comment> \<open>\<^verbatim>\<open>${API_URL}/events/${event.id}/participants\<close>\<close>

datatype request =
    GetOfficerEvents "string option" bool
  | CreateOfficerEvent event_form "string option"
  | UpdateOfficerEvent "int option" event_form "string option"
  | DeleteOfficerEvent "int option" "string option"
  | Fetch string endpoint "string option"  \<comment> \<open>method, URL, bearer token\<close>
  | GetProfile "string option"
  | UpdateProfile "string option" profile_form

record browser =
  localStorage :: storage
  navigations :: "string list"
  requests :: "request list"

definition getItem :: "string \<Rightarrow> 'a browser_scheme \<Rightarrow> string option" where
  "getItem k b = localStorage b k"

definition removeItem :: "string \<Rightarrow> 'a browser_scheme \<Rightarrow> 'a browser_scheme" where
  "removeItem k b = b\<lparr>localStorage := (localStorage b)(k := None)\<rparr>"

definition navigate :: "string \<Rightarrow> 'a browser_scheme \<Rightarrow> 'a browser_scheme" where
  "navigate path b = b\<lparr>navigations := navigations b @ [path]\<rparr>"

definition send :: "request \<Rightarrow> 'a browser_scheme \<Rightarrow> 'a browser_scheme" where
  "send r b = b\<lparr>requests := requests b @ [r]\<rparr>"

text \<open>
  What \<^verbatim>\<open>fetch\<close> resolves to. \<open>body\<close> is what \<^verbatim>\<open>response.json()\<close> settles to; the
  endpoints answer with an object (of which the pages read \<^verbatim>\<open>detail\<close> only), an array
  of participants, or \<^verbatim>\<open>null\<close>. \<^verbatim>\<open>response.ok\<close> is the Fetch API's: the status is
  in the range 200 to 299.
\<close>

type_synonym participant = "(string \<times> string) list"

datatype json = JNull | JArray "participant list" | JObject "string option"

record response =
  status :: nat
  body :: "json outcome"

definition ok :: "response \<Rightarrow> bool" where
  "ok r = (200 \<le> status r \<and> status r \<le> 299)"

definition auth_failed :: "string \<Rightarrow> bool" where
  \<comment> \<open>the test the catch blocks of the events page make on \<^verbatim>\<open>error.message\<close>\<close>
  "auth_failed msg =
     (str_includes msg ''Invalid or expired token'' \<or> str_includes msg ''HTTP error! status: 401'')"

section \<open>OfficerManageEventsPage\<close>

record officer =
  position :: "string option"

record event =
  event_id :: "int option"
  title :: "string option"
  date :: "string option"
  location :: "string option"
  image_url :: "string option"
  participant_count :: "nat option"

record status_modal =
  sm_isOpen :: bool
  sm_title :: string
  sm_message :: string
  sm_type :: string

text \<open>
  \<^verbatim>\<open>handleArchive\<close> stores the function \<^verbatim>\<open>confirmArchive\<close> of its own render in the
  state (\<^verbatim>\<open>onConfirm: confirmArchive\<close>), and the confirmation modal later calls that stored
  function. A function of a render reads the variables of that render: for
  \<^verbatim>\<open>confirmArchive\<close> these are \<^verbatim>\<open>confirmationModal.eventId\<close>, \<^verbatim>\<open>token\<close> and
  \<^verbatim>\<open>showArchived\<close> (its state updates are functional, \<^verbatim>\<open>prev => ...\<close>, and act on the
  state of the moment). \<open>ConfirmArchive\<close> is that closure: the three values it captured.
  Every other handler is handed to a child component anew at each render, and so reads
  the state of the latest render.
\<close>

datatype callback = ConfirmArchive "int option" "string option" bool

record confirmation_modal =
  cm_isOpen :: bool
  cm_title :: string
  cm_message :: string
  cm_onConfirm :: "callback option"
  cm_eventId :: "int option"
  cm_isLoading :: bool

record approval_modal =
  am_isOpen :: bool
  am_eventId :: "int option"

text \<open>
  \<^verbatim>\<open>const token = localStorage.getItem('officerAccessToken')\<close> is evaluated when the
  component renders, not when a handler runs: \<open>token\<close> is the value the latest render
  read, and \<open>rerender\<close> reads it anew. The storage itself is read when a handler or an
  effect calls \<^verbatim>\<open>localStorage.getItem\<close>.
\<close>

record page = browser +
  token :: "string option"
  officer :: "officer option"
  events :: "event list"
  showEventModal :: bool
  showDetailsModal :: bool
  selectedEvent :: "event option"
  showParticipantsModal :: bool
  participants :: json
  isLoading :: bool
  showArchived :: bool
  isTransitioning :: bool
  statusModal :: status_modal
  confirmationModal :: confirmation_modal
  approvalModal :: approval_modal

definition OfficerManageEventsPage :: "storage \<Rightarrow> page" where
  \<comment> \<open>the first render: the token read from the storage, and the initial values of the
     \<^verbatim>\<open>useState\<close> calls\<close>
  "OfficerManageEventsPage store =
     \<lparr>localStorage = store, navigations = [], requests = [],
      token = store ''officerAccessToken'',
      officer = None, events = [], showEventModal = False, showDetailsModal = False,
      selectedEvent = None, showParticipantsModal = False, participants = JArray [],
      isLoading = True, showArchived = False, isTransitioning = False,
      statusModal = \<lparr>sm_isOpen = False, sm_title = [], sm_message = [], sm_type = ''success''\<rparr>,
      confirmationModal = \<lparr>cm_isOpen = False, cm_title = [], cm_message = [],
        cm_onConfirm = None, cm_eventId = None, cm_isLoading = False\<rparr>,
      approvalModal = \<lparr>am_isOpen = False, am_eventId = None\<rparr>\<rparr>"

definition rerender :: "page \<Rightarrow> page" where
  \<comment> \<open>a later render of the mounted page: the state is kept, the token is read again\<close>
  "rerender s = s\<lparr>token := getItem ''officerAccessToken'' s\<rparr>"

definition logout :: "page \<Rightarrow> page" where
  \<comment> \<open>the three statements every 401 branch of the page repeats\<close>
  "logout s = navigate ''/officer-login'' (removeItem ''officerInfo'' (removeItem ''officerAccessToken'' s))"

subsection \<open>Effects run at mount\<close>

definition authCheck :: "page \<Rightarrow> page" where
  "authCheck s =
     (if \<not> truthy (token s) \<or> \<not> truthy (getItem ''officerInfo'' s) then logout s else s)"

text \<open>
  \<open>fetchData\<close> runs at mount and whenever \<open>showArchived\<close> changes. \<open>parsed\<close> is what
  \<^verbatim>\<open>JSON.parse(storedOfficer)\<close> gives (\<open>Inl\<close> the message of its SyntaxError), \<open>fetched\<close>
  what \<^verbatim>\<open>getOfficerEvents\<close> settles to. The \<open>try\<close> block evaluates to \<open>Inl (msg, s')\<close>
  when it throws in state \<open>s'\<close>, to \<open>Inr s'\<close> when it completes.
\<close>

definition fetchData :: "officer option outcome \<Rightarrow> event list outcome \<Rightarrow> page \<Rightarrow> page" where
  "fetchData parsed fetched s =
     (if \<not> truthy (token s) then s
      else
        let tried =
          (let storedOfficer = getItem ''officerInfo'' s in
           case (if truthy storedOfficer then parsed else Inr None) of
             Inl msg \<Rightarrow> Inl (msg, s)
           | Inr officerData \<Rightarrow>
               let s1 = s\<lparr>officer := officerData\<rparr>;
                   s2 = send (GetOfficerEvents (token s) (showArchived s)) s1
               in (case fetched of
                     Inl msg \<Rightarrow> Inl (msg, s2)
                   | Inr eventsData \<Rightarrow> Inr (s2\<lparr>events := eventsData\<rparr>)));
          caught =
          (case tried of
             Inr s' \<Rightarrow> s'
           | Inl (msg, s') \<Rightarrow>
               let errorMessage =
                 (if str_includes msg ''Officer not found''
                  then ''Your officer account was not found or is deactivated. Please contact support or log in again.''
                  else ''Failed to load events. Please try again later.'')
               in if auth_failed msg then logout s'
                  else s'\<lparr>statusModal := \<lparr>sm_isOpen = True, sm_title = ''Error'',
                         sm_message = errorMessage, sm_type = ''error''\<rparr>\<rparr>)
        in caught\<lparr>isLoading := False, isTransitioning := False\<rparr>)"

subsection \<open>Opening and closing the modals\<close>

definition handleAddNewEvent :: "page \<Rightarrow> page" where
  "handleAddNewEvent s = s\<lparr>selectedEvent := None, showEventModal := True\<rparr>"

definition handleEdit :: "event \<Rightarrow> page \<Rightarrow> page" where
  "handleEdit evt s = s\<lparr>selectedEvent := Some evt, showEventModal := True\<rparr>"

definition handleApproveEvent :: "int option \<Rightarrow> page \<Rightarrow> page" where
  "handleApproveEvent eventId s = s\<lparr>approvalModal := \<lparr>am_isOpen = True, am_eventId = eventId\<rparr>\<rparr>"

definition closeApprovalModal :: "page \<Rightarrow> page" where
  \<comment> \<open>the \<^verbatim>\<open>onClose\<close> of the approval modal, written inline in the JSX\<close>
  "closeApprovalModal s = s\<lparr>approvalModal := \<lparr>am_isOpen = False, am_eventId = None\<rparr>\<rparr>"

definition handleDetails :: "event \<Rightarrow> page \<Rightarrow> page" where
  "handleDetails evt s = s\<lparr>selectedEvent := Some evt, showDetailsModal := True\<rparr>"

definition handleCloseEventModal :: "page \<Rightarrow> page" where
  "handleCloseEventModal s = s\<lparr>showEventModal := False\<rparr>"

definition handleCloseDetailsModal :: "page \<Rightarrow> page" where
  "handleCloseDetailsModal s = s\<lparr>showDetailsModal := False, selectedEvent := None\<rparr>"

definition handleCloseParticipantsModal :: "page \<Rightarrow> page" where
  "handleCloseParticipantsModal s = s\<lparr>showParticipantsModal := False, participants := JArray []\<rparr>"

definition handleCloseStatusModal :: "page \<Rightarrow> page" where
  "handleCloseStatusModal s = s\<lparr>statusModal := (statusModal s)\<lparr>sm_isOpen := False\<rparr>\<rparr>"

definition handleCloseConfirmationModal :: "page \<Rightarrow> page" where
  "handleCloseConfirmationModal s =
     (if \<not> cm_isLoading (confirmationModal s)
      then s\<lparr>confirmationModal := (confirmationModal s)\<lparr>cm_isOpen := False\<rparr>\<rparr>
      else s)"

definition toggleArchived :: "page \<Rightarrow> page" where
  "toggleArchived s = s\<lparr>isTransitioning := True, showArchived := \<not> showArchived s\<rparr>"

subsection \<open>Saving an event\<close>

text \<open>
  \<open>saved\<close> is what \<^verbatim>\<open>updateOfficerEvent\<close> or \<^verbatim>\<open>createOfficerEvent\<close> settles to,
  \<open>fetched\<close> what the \<^verbatim>\<open>getOfficerEvents\<close> after it settles to (read only when the
  handler gets that far).
\<close>

definition handleSave ::
  "event_form \<Rightarrow> int option \<Rightarrow> unit outcome \<Rightarrow> event list outcome \<Rightarrow> page \<Rightarrow> page" where
  "handleSave formData eventId saved fetched s =
     (let tried =
        (case
           (if truthy_id eventId then
              (let s1 = send (UpdateOfficerEvent eventId formData (token s)) s in
               case saved of
                 Inl msg \<Rightarrow> Inl (msg, s1)
               | Inr _ \<Rightarrow> Inr (s1\<lparr>statusModal := \<lparr>sm_isOpen = True, sm_title = ''Event Updated'',
                            sm_message = ''Event updated successfully!'', sm_type = ''success''\<rparr>\<rparr>))
            else
              (let s1 = send (CreateOfficerEvent formData (token s)) s in
               case saved of
                 Inl msg \<Rightarrow> Inl (msg, s1)
               | Inr _ \<Rightarrow> Inr (s1\<lparr>statusModal := \<lparr>sm_isOpen = True, sm_title = ''Event Created'',
                            sm_message = ''Event created successfully!'', sm_type = ''success''\<rparr>\<rparr>)))
         of
           Inl thrown \<Rightarrow> Inl thrown
         | Inr s2 \<Rightarrow>
             let s3 = s2\<lparr>showEventModal := False\<rparr>;
                 s4 = send (GetOfficerEvents (token s) (showArchived s)) s3
             in (case fetched of
                   Inl msg \<Rightarrow> Inl (msg, s4)
                 | Inr updated \<Rightarrow> Inr (s4\<lparr>events := updated\<rparr>)))
      in case tried of
           Inr s' \<Rightarrow> s'
         | Inl (msg, s') \<Rightarrow>
             let errorMessage =
               (if str_includes msg ''Officer not found''
                then ''Your officer account was not found or is deactivated. Please contact support or log in again.''
                else ''Failed to save the event. Please try again.'')
             in if auth_failed msg then logout s'
                else s'\<lparr>statusModal := \<lparr>sm_isOpen = True, sm_title = ''Error Saving Event'',
                       sm_message = errorMessage, sm_type = ''error''\<rparr>\<rparr>)"

subsection \<open>Archiving an event\<close>

definition handleArchive :: "int option \<Rightarrow> page \<Rightarrow> page" where
  "handleArchive eventId s =
     s\<lparr>confirmationModal :=
         \<lparr>cm_isOpen = True,
          cm_title = ''Archive Event'',
          cm_message = ''Are you sure you want to archive this event? This action will move the event to archived status.'',
          cm_onConfirm = Some (ConfirmArchive (cm_eventId (confirmationModal s)) (token s) (showArchived s)),
          cm_eventId = eventId,
          cm_isLoading = False\<rparr>\<rparr>"

text \<open>
  \<^verbatim>\<open>confirmArchive\<close> in two parts, cut at its first \<^verbatim>\<open>await\<close>: \<open>confirmArchive_pending\<close>
  is the state while \<^verbatim>\<open>deleteOfficerEvent\<close> is in flight, \<open>confirmArchive_settle\<close> the
  rest of the function. \<open>eventId\<close>, \<open>tok\<close> and \<open>archived\<close> are the closure's
  \<^verbatim>\<open>confirmationModal.eventId\<close>, \<^verbatim>\<open>token\<close> and \<^verbatim>\<open>showArchived\<close>.
\<close>

definition confirmArchive_pending :: "int option \<Rightarrow> string option \<Rightarrow> page \<Rightarrow> page" where
  "confirmArchive_pending eventId tok s =
     send (DeleteOfficerEvent eventId tok)
       (s\<lparr>confirmationModal := (confirmationModal s)\<lparr>cm_isLoading := True\<rparr>\<rparr>)"

definition confirmArchive_settle ::
  "string option \<Rightarrow> bool \<Rightarrow> unit outcome \<Rightarrow> event list outcome \<Rightarrow> page \<Rightarrow> page" where
  "confirmArchive_settle tok archived deleted fetched s1 =
     (let tried =
        (case deleted of
           Inl msg \<Rightarrow> Inl (msg, s1)
         | Inr _ \<Rightarrow>
             let s2 = send (GetOfficerEvents tok archived) s1 in
             (case fetched of
                Inl msg \<Rightarrow> Inl (msg, s2)
              | Inr updated \<Rightarrow>
                  let s3 = s2\<lparr>events := updated\<rparr>;
                      s4 = s3\<lparr>confirmationModal :=
                              (confirmationModal s3)\<lparr>cm_isOpen := False, cm_isLoading := False\<rparr>\<rparr>
                  in Inr (s4\<lparr>statusModal := \<lparr>sm_isOpen = True, sm_title = ''Event Archived'',
                            sm_message = ''The event has been successfully archived.'',
                            sm_type = ''success''\<rparr>\<rparr>)))
      in case tried of
           Inr s' \<Rightarrow> s'
         | Inl (msg, s') \<Rightarrow>
             if auth_failed msg then logout s'
             else
               (let s5 = s'\<lparr>confirmationModal :=
                              (confirmationModal s')\<lparr>cm_isOpen := False, cm_isLoading := False\<rparr>\<rparr>
                in s5\<lparr>statusModal := \<lparr>sm_isOpen = True, sm_title = ''Error Archiving Event'',
                         sm_message = ''Failed to archive the event. Please try again.'',
                         sm_type = ''error''\<rparr>\<rparr>))"

definition confirmArchive ::
  "int option \<Rightarrow> string option \<Rightarrow> bool \<Rightarrow> unit outcome \<Rightarrow> event list outcome \<Rightarrow> page \<Rightarrow> page" where
  "confirmArchive eventId tok archived deleted fetched s =
     confirmArchive_settle tok archived deleted fetched (confirmArchive_pending eventId tok s)"

definition onConfirm :: "unit outcome \<Rightarrow> event list outcome \<Rightarrow> page \<Rightarrow> page" where
  \<comment> \<open>the confirmation modal calls its \<^verbatim>\<open>onConfirm\<close> prop, \<^verbatim>\<open>confirmationModal.onConfirm\<close>\<close>
  "onConfirm deleted fetched s =
     (case cm_onConfirm (confirmationModal s) of
        None \<Rightarrow> s
      | Some (ConfirmArchive eventId tok archived) \<Rightarrow>
          confirmArchive eventId tok archived deleted fetched s)"

subsection \<open>Approving or declining an event plan\<close>

definition null_detail_error :: string where
  \<comment> \<open>the message of the TypeError that reading \<^verbatim>\<open>detail\<close> of \<^verbatim>\<open>null\<close> throws\<close>
  "null_detail_error = ''Cannot read properties of null''"

definition error_detail :: "json outcome \<Rightarrow> string option outcome" where
  \<comment> \<open>\<^verbatim>\<open>(await response.json().catch(() => ({}))).detail\<close>\<close>
  "error_detail b =
     (case b of
        Inl _ \<Rightarrow> Inr None
      | Inr JNull \<Rightarrow> Inl null_detail_error
      | Inr (JArray _) \<Rightarrow> Inr None
      | Inr (JObject detail) \<Rightarrow> Inr detail)"

text \<open>
  \<open>responded\<close> is what the \<^verbatim>\<open>fetch\<close> of the approve endpoint settles to, \<open>fetched\<close>
  what the \<^verbatim>\<open>getOfficerEvents\<close> after it settles to. A \<^verbatim>\<open>return\<close> inside the
  \<open>try\<close> block completes it (\<open>Inr\<close>).
\<close>

definition handleApprovalSubmit ::
  "string \<Rightarrow> string option \<Rightarrow> response outcome \<Rightarrow> event list outcome \<Rightarrow> page \<Rightarrow> page" where
  "handleApprovalSubmit action reason responded fetched s =
     (let eventId = am_eventId (approvalModal s) in
      if \<not> truthy_id eventId then s\<lparr>approvalModal := \<lparr>am_isOpen = False, am_eventId = None\<rparr>\<rparr>
      else if action = ''decline'' then
        (let s1 = s\<lparr>approvalModal := \<lparr>am_isOpen = False, am_eventId = None\<rparr>\<rparr> in
         s1\<lparr>statusModal := \<lparr>sm_isOpen = True, sm_title = ''Event Declined'',
              sm_message = ''The event plan has been declined.'' @
                (if truthy reason then '' Reason: '' @ the reason else []),
              sm_type = ''error''\<rparr>\<rparr>)
      else
        let s1 = send (Fetch ''POST'' (ApproveEndpoint eventId) (token s)) s;
            tried =
              (case responded of
                 Inl msg \<Rightarrow> Inl (msg, s1)
               | Inr response \<Rightarrow>
                   if \<not> ok response then
                     (if status response = 401 then Inr (logout s1)
                      else
                        (case error_detail (body response) of
                           Inl msg \<Rightarrow> Inl (msg, s1)
                         | Inr detail \<Rightarrow>
                             Inl (if truthy detail then the detail else ''Failed to approve event'', s1)))
                   else
                     let s2 = s1\<lparr>approvalModal := \<lparr>am_isOpen = False, am_eventId = None\<rparr>\<rparr>;
                         s3 = s2\<lparr>statusModal := \<lparr>sm_isOpen = True, sm_title = ''Event Approved'',
                                sm_message = ''The event plan has been successfully approved.'',
                                sm_type = ''success''\<rparr>\<rparr>;
                         s4 = send (GetOfficerEvents (token s) (showArchived s)) s3
                     in (case fetched of
                           Inl msg \<Rightarrow> Inl (msg, s4)
                         | Inr updated \<Rightarrow> Inr (s4\<lparr>events := updated\<rparr>)))
        in case tried of
             Inr s' \<Rightarrow> s'
           | Inl (msg, s') \<Rightarrow>
               let s5 = s'\<lparr>approvalModal := \<lparr>am_isOpen = False, am_eventId = None\<rparr>\<rparr> in
               s5\<lparr>statusModal := \<lparr>sm_isOpen = True, sm_title = ''Error'',
                    sm_message = (if msg \<noteq> [] then msg else ''Failed to approve event. Please try again.''),
                    sm_type = ''error''\<rparr>\<rparr>)"

subsection \<open>The participants of an event\<close>

text \<open>
  \<open>evt\<close> is the \<^verbatim>\<open>event\<close> argument (\<^verbatim>\<open>event?.id\<close> allows it to be absent),
  \<open>responded\<close> what the \<^verbatim>\<open>fetch\<close> of the participants endpoint settles to. The
  \<open>catch\<close> block only logs the message of what it caught, so the \<open>try\<close> block
  evaluates to \<open>Inl s'\<close> when it throws in state \<open>s'\<close>. \<^verbatim>\<open>token.substring\<close> throws when
  the token is \<^verbatim>\<open>null\<close>, before the request is sent.
\<close>

definition handleParticipants :: "event option \<Rightarrow> response outcome \<Rightarrow> page \<Rightarrow> page" where
  "handleParticipants evt responded s =
     (let eid = (case evt of None \<Rightarrow> None | Some e \<Rightarrow> event_id e) in
      if \<not> truthy_id eid then
        s\<lparr>statusModal := \<lparr>sm_isOpen = True, sm_title = ''Error'',
             sm_message = ''Cannot load participants: Invalid event.'', sm_type = ''error''\<rparr>\<rparr>
      else
        let s1 = s\<lparr>showDetailsModal := False, selectedEvent := evt\<rparr>;
            tried =
              (case token s of
                 None \<Rightarrow> Inl s1
               | Some _ \<Rightarrow>
                   let s2 = send (Fetch ''GET'' (ParticipantsEndpoint eid) (token s)) s1 in
                   (case responded of
                      Inl _ \<Rightarrow> Inl s2
                    | Inr res \<Rightarrow>
                        if \<not> ok res then
                          (if status res = 401 then Inr (logout s2) else Inl s2)
                        else
                          (case body res of
                             Inl _ \<Rightarrow> Inl s2
                           | Inr participantsData \<Rightarrow>
                               let s3 = s2\<lparr>participants :=
                                     (if participantsData = JNull then JArray [] else participantsData)\<rparr>
                               in Inr (s3\<lparr>showParticipantsModal := True\<rparr>))))
        in case tried of
             Inr s' \<Rightarrow> s'
           | Inl s' \<Rightarrow>
               let s4 = s'\<lparr>participants := JArray []\<rparr>;
                   s5 = s4\<lparr>statusModal := \<lparr>sm_isOpen = True, sm_title = ''Error'',
                          sm_message = ''Failed to load participants. Please try again later.'',
                          sm_type = ''error''\<rparr>\<rparr>
               in s5\<lparr>showParticipantsModal := True\<rparr>)"

subsection \<open>The page as a transition system\<close>

text \<open>
  What can happen to the mounted page: it renders again, an effect runs, or the user
  acts on a control and the handler wired to it in the JSX runs. An action carries the
  handler's arguments and what the backend answers to the requests the handler awaits.
  React renders the page again after a handler has changed its state; here a render is
  an action of its own that may come at any point, which allows every order the page
  can show.
\<close>

datatype action =
    Render
  | AuthCheck
  | FetchData "officer option outcome" "event list outcome"
  | ToggleArchived
  | AddNewEvent
  | Edit event
  | Save event_form "int option" "unit outcome" "event list outcome"
  | ApproveEvent "int option"
  | ApprovalSubmit string "string option" "response outcome" "event list outcome"
  | CloseApproval
  | Archive "int option"
  | Confirm "unit outcome" "event list outcome"
  | CloseConfirmation
  | Details event
  | Participants "event option" "response outcome"
  | CloseEventModal
  | CloseDetailsModal
  | CloseParticipantsModal
  | CloseStatusModal

fun step :: "page \<Rightarrow> action \<Rightarrow> page" where
  "step s Render = rerender s"
| "step s AuthCheck = authCheck s"
| "step s (FetchData parsed fetched) = fetchData parsed fetched s"
| "step s ToggleArchived = toggleArchived s"
| "step s AddNewEvent = handleAddNewEvent s"
| "step s (Edit evt) = handleEdit evt s"
| "step s (Save formData eventId saved fetched) = handleSave formData eventId saved fetched s"
| "step s (ApproveEvent eventId) = handleApproveEvent eventId s"
| "step s (ApprovalSubmit a reason responded fetched) = handleApprovalSubmit a reason responded fetched s"
| "step s CloseApproval = closeApprovalModal s"
| "step s (Archive eventId) = handleArchive eventId s"
| "step s (Confirm deleted fetched) = onConfirm deleted fetched s"
| "step s CloseConfirmation = handleCloseConfirmationModal s"
| "step s (Details evt) = handleDetails evt s"
| "step s (Participants evt responded) = handleParticipants evt responded s"
| "step s CloseEventModal = handleCloseEventModal s"
| "step s CloseDetailsModal = handleCloseDetailsModal s"
| "step s CloseParticipantsModal = handleCloseParticipantsModal s"
| "step s CloseStatusModal = handleCloseStatusModal s"

definition run :: "page \<Rightarrow> action list \<Rightarrow> page" where
  "run s acts = foldl step s acts"

section \<open>ProfilePage\<close>

record user =
  student_number :: string
  full_name :: string
  year :: string
  block :: string
  email :: string

text \<open>
  \<open>modalState\<close> has the fields of the events page's \<open>statusModal\<close> and feeds the same
  \<^verbatim>\<open>StatusModal\<close> component; \<open>profileLoading\<close> is the page's \<^verbatim>\<open>isLoading\<close>.
\<close>

text \<open>
  \<open>access_token\<close> is the page's \<^verbatim>\<open>token\<close>, read from the storage when the page renders
  (\<^verbatim>\<open>const token = localStorage.getItem('access_token')\<close>), as on the events page.
\<close>

record profile_page = browser +
  access_token :: "string option"
  user :: "user option"
  profileLoading :: bool
  modalState :: status_modal

definition ProfilePage :: "storage \<Rightarrow> profile_page" where
  "ProfilePage store =
     \<lparr>localStorage = store, navigations = [], requests = [],
      access_token = store ''access_token'',
      user = None, profileLoading = True,
      modalState = \<lparr>sm_isOpen = False, sm_title = [], sm_message = [], sm_type = ''success''\<rparr>\<rparr>"

definition rerenderProfile :: "profile_page \<Rightarrow> profile_page" where
  "rerenderProfile s = s\<lparr>access_token := getItem ''access_token'' s\<rparr>"

definition tokenCheck :: "profile_page \<Rightarrow> profile_page" where
  \<comment> \<open>the effect under \<^verbatim>\<open>// Early token check\<close>\<close>
  "tokenCheck s =
     (if \<not> truthy (access_token s)
      then navigate ''/'' (removeItem ''user_id'' (removeItem ''access_token'' s))
      else s)"

definition fetchProfile :: "user outcome \<Rightarrow> profile_page \<Rightarrow> profile_page" where
  "fetchProfile got s =
     (if \<not> truthy (access_token s) then s
      else
        let s1 = send (GetProfile (access_token s)) s;
            caught =
              (case got of
                 Inr userData \<Rightarrow> s1\<lparr>user := Some userData\<rparr>
               | Inl _ \<Rightarrow> navigate ''/'' (removeItem ''user_id'' (removeItem ''access_token'' s1)))
        in caught\<lparr>profileLoading := False\<rparr>)"

definition handleUpdateProfile :: "profile_form \<Rightarrow> user outcome \<Rightarrow> profile_page \<Rightarrow> profile_page" where
  "handleUpdateProfile updatedData updated s =
     (let s1 = send (UpdateProfile (access_token s) updatedData) s in
      case updated of
        Inr updatedUser \<Rightarrow>
          let s2 = s1\<lparr>user := Some updatedUser\<rparr> in
          s2\<lparr>modalState := \<lparr>sm_isOpen = True, sm_title = ''Profile Updated'',
               sm_message = ''Your profile has been successfully updated.'', sm_type = ''success''\<rparr>\<rparr>
      | Inl _ \<Rightarrow>
          s1\<lparr>modalState := \<lparr>sm_isOpen = True, sm_title = ''Profile Update Failed'',
               sm_message = ''Failed to update profile. Please try again.'', sm_type = ''error''\<rparr>\<rparr>)"

definition closeModal :: "profile_page \<Rightarrow> profile_page" where
  "closeModal s = s\<lparr>modalState := (modalState s)\<lparr>sm_isOpen := False\<rparr>\<rparr>"

section \<open>ProfileCard\<close>

text \<open>
  \<open>formData\<close> is an object: its keys in insertion order, each with its value.
  \<^verbatim>\<open>{ ...formData, [name]: value }\<close> replaces the value of a key the object has and
  appends a key it has not, which is \<^const>\<open>AList.update\<close>.
\<close>

record card =
  isEditing :: bool
  formData :: profile_form

definition ProfileCard :: "user \<Rightarrow> card" where
  "ProfileCard u =
     \<lparr>isEditing = False,
      formData = [(''full_name'', full_name u), (''year'', year u), (''block'', block u)]\<rparr>"

definition form_controls :: "string list" where
  \<comment> \<open>the \<^verbatim>\<open>name\<close> attributes of the form's input and its two selects, the only elements
     with \<^verbatim>\<open>onChange={handleInputChange}\<close>\<close>
  "form_controls = [''full_name'', ''year'', ''block'']"

definition handleInputChange :: "string \<Rightarrow> string \<Rightarrow> card \<Rightarrow> card" where
  "handleInputChange name v c = c\<lparr>formData := AList.update name v (formData c)\<rparr>"

definition handleSubmit :: "card \<Rightarrow> profile_form \<times> card" where
  \<comment> \<open>the payload handed to \<^verbatim>\<open>onUpdate\<close>, and the card after \<^verbatim>\<open>setIsEditing(false)\<close>\<close>
  "handleSubmit c = (formData c, c\<lparr>isEditing := False\<rparr>)"

definition toggleEdit :: "user \<Rightarrow> card \<Rightarrow> card" where
  "toggleEdit u c =
     c\<lparr>isEditing := \<not> isEditing c,
       formData := [(''full_name'', full_name u), (''year'', year u), (''block'', block u)]\<rparr>"

text \<open>
  What the user can do to the card: change a control of the form, press Edit or Cancel
  (\<open>ToggleEdit\<close>, with the \<^verbatim>\<open>user\<close> prop of the moment), or submit the form. The second
  component of the state collects the payloads handed to \<^verbatim>\<open>onUpdate\<close>.
\<close>

datatype card_event = InputChange string string | ToggleEdit user | Submit

fun card_step :: "card \<times> profile_form list \<Rightarrow> card_event \<Rightarrow> card \<times> profile_form list" where
  "card_step (c, sent) (InputChange name v) = (handleInputChange name v c, sent)"
| "card_step (c, sent) (ToggleEdit u) = (toggleEdit u c, sent)"
| "card_step (c, sent) Submit = (snd (handleSubmit c), sent @ [fst (handleSubmit c)])"

fun in_form :: "card_event \<Rightarrow> bool" where
  "in_form (InputChange name v) = (name \<in> set form_controls)"
| "in_form (ToggleEdit u) = True"
| "in_form Submit = True"

definition submitted :: "user \<Rightarrow> card_event list \<Rightarrow> profile_form list" where
  "submitted u evs = snd (foldl card_step (ProfileCard u, []) evs)"

section \<open>Outcomes of a request, and sample inputs\<close>

definition unauthorized :: "response outcome \<Rightarrow> bool" where
  \<comment> \<open>the \<^verbatim>\<open>fetch\<close> resolved with status 401\<close>
  "unauthorized responded = (case responded of Inl _ \<Rightarrow> False | Inr res \<Rightarrow> status res = 401)"

definition accepted :: "response outcome \<Rightarrow> bool" where
  \<comment> \<open>the \<^verbatim>\<open>fetch\<close> resolved with an ok response\<close>
  "accepted responded = (case responded of Inl _ \<Rightarrow> False | Inr res \<Rightarrow> ok res)"

definition participants_failed :: "response outcome \<Rightarrow> bool" where
  \<comment> \<open>the participants fetch failed: it rejected, the response was not ok, or its body
     did not parse\<close>
  "participants_failed responded =
     (case responded of Inl _ \<Rightarrow> True | Inr res \<Rightarrow> (if ok res then isl (body res) else True))"

definition error_shown :: "page \<Rightarrow> page \<Rightarrow> bool" where
  \<comment> \<open>from \<open>s\<close> to \<open>s'\<close>: an error-type status modal is open, the storage is as it
     was, and the page has not navigated\<close>
  "error_shown s s' =
     (sm_isOpen (statusModal s') \<and> sm_type (statusModal s') = ''error'' \<and>
      localStorage s' = localStorage s \<and> navigations s' = navigations s)"

definition logged_out :: "page \<Rightarrow> page \<Rightarrow> bool" where
  \<comment> \<open>from \<open>s\<close> to \<open>s'\<close>: both credentials are removed from the storage and the page has
     navigated to the login page\<close>
  "logged_out s s' =
     (localStorage s' = (localStorage s)(''officerAccessToken'' := None, ''officerInfo'' := None) \<and>
      navigations s' = navigations s @ [''/officer-login''])"

definition sample_store :: storage where
  "sample_store = [''officerAccessToken'' \<mapsto> ''tok'', ''officerInfo'' \<mapsto> ''info'']"

definition sample_page :: page where
  "sample_page = OfficerManageEventsPage sample_store"

definition sample_confirming :: page where
  \<comment> \<open>the confirmation modal open for event 5, a first Archive click on that event
     having been cancelled\<close>
  "sample_confirming =
     handleArchive (Some 5) (handleCloseConfirmationModal (handleArchive (Some 5) sample_page))"

definition sample_event :: event where
  "sample_event = \<lparr>event_id = Some 5, title = Some ''Gala'', date = None, location = None,
     image_url = None, participant_count = None\<rparr>"


definition sample_user :: user where
  "sample_user = \<lparr>student_number = ''2021-00123'', full_name = ''Ana Cruz'', year = ''1st Year'',
     block = ''A'', email = ''ana@example.org''\<rparr>"

definition sample_profile_page :: profile_page where
  "sample_profile_page = ProfilePage [''access_token'' \<mapsto> ''tok'', ''user_id'' \<mapsto> ''7'']"

section \<open>Properties\<close>

subsection \<open>What leaving the page keeps and changes\<close>

lemma requests_logout: "requests (logout s) = requests s"
  by (simp add: logout_def navigate_def removeItem_def)


lemma navigations_logout: "navigations (logout s) = navigations s @ [''/officer-login'']"
  by (simp add: logout_def navigate_def removeItem_def)

lemma localStorage_logout:
  "localStorage (logout s) = (localStorage s)(''officerAccessToken'' := None, ''officerInfo'' := None)"
  by (simp add: logout_def navigate_def removeItem_def)

subsection \<open>Re-fetching the list\<close>

lemma requests_handleSave:
  "requests (handleSave fd eid (Inr ()) fetched s) =
     requests s @
       [if truthy_id eid then UpdateOfficerEvent eid fd (token s) else CreateOfficerEvent fd (token s),
        GetOfficerEvents (token s) (showArchived s)]"
  by (simp add: handleSave_def Let_def send_def requests_logout split: sum.splits prod.splits)

lemma events_handleSave: "events (handleSave fd eid (Inr ()) (Inr evs) s) = evs"
  by (simp add: handleSave_def Let_def send_def)

lemma requests_confirmArchive:
  "requests (confirmArchive e tok a (Inr ()) fetched s) =
     requests s @ [DeleteOfficerEvent e tok, GetOfficerEvents tok a]"
  by (simp add: confirmArchive_def confirmArchive_settle_def confirmArchive_pending_def Let_def
      send_def requests_logout split: sum.splits prod.splits)

lemma events_confirmArchive: "events (confirmArchive e tok a (Inr ()) (Inr evs) s) = evs"
  by (simp add: confirmArchive_def confirmArchive_settle_def confirmArchive_pending_def Let_def send_def)

lemma onConfirm_handleArchive:
  "onConfirm deleted fetched (handleArchive eid s) =
     confirmArchive (cm_eventId (confirmationModal s)) (token s) (showArchived s) deleted fetched
       (handleArchive eid s)"
  by (simp add: onConfirm_def handleArchive_def)

lemma handleArchive_keeps:
  "token (handleArchive eid s) = token s \<and> showArchived (handleArchive eid s) = showArchived s \<and>
   requests (handleArchive eid s) = requests s"
  by (simp add: handleArchive_def getItem_def)

text \<open>
  When the create, update or delete call succeeds, \<open>getOfficerEvents\<close> is the next
  request and the list it returns becomes \<open>events\<close>. \<open>handleSave\<close> sends it with the
  token and the archived flag of the page; \<open>confirmArchive\<close> sends it with the token and
  the flag its closure captured, which are those of the page only as long as nothing
  has changed them since the Archive click.
\<close>

lemma refetch_uses_handler_values:
  "requests (handleSave fd eid (Inr ()) fetched s) =
     requests s @
       [if truthy_id eid then UpdateOfficerEvent eid fd (token s) else CreateOfficerEvent fd (token s),
        GetOfficerEvents (token s) (showArchived s)] \<and>
   events (handleSave fd eid (Inr ()) (Inr evs) s) = evs \<and>
   requests (confirmArchive e tok a (Inr ()) fetched s) =
     requests s @ [DeleteOfficerEvent e tok, GetOfficerEvents tok a] \<and>
   events (confirmArchive e tok a (Inr ()) (Inr evs) s) = evs \<and>
   requests (onConfirm (Inr ()) fetched (handleArchive clicked s)) =
     requests (handleArchive clicked s) @
       [DeleteOfficerEvent (cm_eventId (confirmationModal s)) (token s),
        GetOfficerEvents (token (handleArchive clicked s)) (showArchived (handleArchive clicked s))] \<and>
   events (onConfirm (Inr ()) (Inr evs) (handleArchive clicked s)) = evs"
  by (simp add: requests_handleSave events_handleSave requests_confirmArchive events_confirmArchive
      onConfirm_handleArchive handleArchive_keeps)

text \<open>
  The view toggled between the Archive click and the confirmation: the delete succeeds,
  and the re-fetch asks for the list of the view the page has left.
\<close>

lemma refetch_after_toggle:
  "requests (run s [Archive clicked, ToggleArchived, Confirm (Inr ()) fetched]) =
     requests s @
       [DeleteOfficerEvent (cm_eventId (confirmationModal s)) (token s),
        GetOfficerEvents (token s) (showArchived s)] \<and>
   showArchived (run s [Archive clicked, ToggleArchived, Confirm (Inr ()) fetched]) =
     (\<not> showArchived s)"
  by (simp add: run_def onConfirm_def handleArchive_def toggleArchived_def confirmArchive_def
      confirmArchive_settle_def confirmArchive_pending_def Let_def send_def logout_def
      navigate_def removeItem_def split: sum.splits prod.splits)


subsection \<open>The token of a render\<close>

text \<open>
  The page mounted with a token but no officer info in the storage: the first effect
  logs out, and the second, of the same render, still holds the token and sends the
  request for the events.
\<close>

lemma mount_without_officerInfo:
  "requests (run (OfficerManageEventsPage [''officerAccessToken'' \<mapsto> ''tok''])
     [AuthCheck, FetchData parsed (Inr evs)]) = [GetOfficerEvents (Some ''tok'') False] \<and>
   localStorage (run (OfficerManageEventsPage [''officerAccessToken'' \<mapsto> ''tok''])
     [AuthCheck, FetchData parsed (Inr evs)]) ''officerAccessToken'' = None"
  by (simp add: run_def OfficerManageEventsPage_def authCheck_def fetchData_def logout_def
      navigate_def removeItem_def getItem_def truthy_def send_def Let_def)

subsection \<open>Archiving needs the confirmation\<close>









text \<open>
  The id in that request is the one the stored closure captured: the
  \<open>confirmationModal.eventId\<close> of the render in which Archive was clicked, which is the
  id of the click before (none at the first click), not the id just clicked.
\<close>

lemma confirmed_archive_request:
  "requests (run s [Archive clicked, Confirm deleted fetched]) =
     requests s @ DeleteOfficerEvent (cm_eventId (confirmationModal s)) (token s) #
       (case deleted of Inl _ \<Rightarrow> [] | Inr _ \<Rightarrow> [GetOfficerEvents (token s) (showArchived s)])"
  by (simp add: run_def onConfirm_handleArchive confirmArchive_def confirmArchive_settle_def
      confirmArchive_pending_def Let_def send_def requests_logout handleArchive_keeps
      split: sum.splits prod.splits)

subsection \<open>Closing the confirmation modal\<close>

text \<open>
  C10. While \<open>isLoading\<close> is set, as it is from the moment \<open>confirmArchive\<close> has sent
  its request, the close handler of the confirmation modal changes nothing; the handler
  closes the modal exactly when \<open>isLoading\<close> is not set.
\<close>

theorem close_confirmation_while_loading:
  "(cm_isLoading (confirmationModal s) \<longrightarrow> handleCloseConfirmationModal s = s) \<and>
   (\<not> cm_isLoading (confirmationModal s) \<longrightarrow>
      \<not> cm_isOpen (confirmationModal (handleCloseConfirmationModal s))) \<and>
   (cm_isOpen (confirmationModal s) \<and>
    \<not> cm_isOpen (confirmationModal (handleCloseConfirmationModal s)) \<longrightarrow>
      \<not> cm_isLoading (confirmationModal s)) \<and>
   cm_isLoading (confirmationModal (confirmArchive_pending e t s)) \<and>
   cm_isOpen (confirmationModal (confirmArchive_pending e t s)) = cm_isOpen (confirmationModal s) \<and>
   handleCloseConfirmationModal (confirmArchive_pending e t s) = confirmArchive_pending e t s"
  by (simp add: handleCloseConfirmationModal_def confirmArchive_pending_def send_def)

theorem close_confirmation_while_loading_witness:
  "cm_isLoading (confirmationModal (confirmArchive_pending (Some 5) (Some ''tok'') sample_confirming)) \<and>
   cm_isOpen (confirmationModal (confirmArchive_pending (Some 5) (Some ''tok'') sample_confirming)) \<and>
   cm_isOpen (confirmationModal (handleCloseConfirmationModal
     (confirmArchive_pending (Some 5) (Some ''tok'') sample_confirming))) \<and>
   \<not> cm_isLoading (confirmationModal sample_confirming) \<and>
   cm_isOpen (confirmationModal sample_confirming) \<and>
   \<not> cm_isOpen (confirmationModal (handleCloseConfirmationModal sample_confirming))"
  using close_confirmation_while_loading
    [of "confirmArchive_pending (Some 5) (Some ''tok'') sample_confirming" "Some 5" "Some ''tok''"]
    close_confirmation_while_loading [of sample_confirming "Some 5" "Some ''tok''"]
  by (simp add: sample_confirming_def handleArchive_def confirmArchive_pending_def send_def)

subsection \<open>The profile\<close>

text \<open>
  C7. After a profile update that succeeds, the user of the page is the profile the
  backend returned, and the status modal is open with the success message.
\<close>

theorem profile_update_success:
  "user (handleUpdateProfile d (Inr u) s) = Some u \<and>
   modalState (handleUpdateProfile d (Inr u) s) =
     \<lparr>sm_isOpen = True, sm_title = ''Profile Updated'',
      sm_message = ''Your profile has been successfully updated.'', sm_type = ''success''\<rparr>"
  by (simp add: handleUpdateProfile_def Let_def)

lemma card_step_keys:
  assumes "in_form e"
    and "map fst (formData (fst st)) = form_controls"
    and "\<forall>p\<in>set (snd st). map fst p = form_controls"
  shows "map fst (formData (fst (card_step st e))) = form_controls \<and>
         (\<forall>p\<in>set (snd (card_step st e)). map fst p = form_controls)"
proof (cases st)
  case (Pair c sent)
  with assms show ?thesis
    by (cases e)
      (auto simp: handleInputChange_def toggleEdit_def handleSubmit_def update_keys form_controls_def)
qed

lemma foldl_card_step_keys:
  "\<forall>e\<in>set evs. in_form e \<Longrightarrow>
   map fst (formData (fst st)) = form_controls \<Longrightarrow>
   \<forall>p\<in>set (snd st). map fst p = form_controls \<Longrightarrow>
   \<forall>p\<in>set (snd (foldl card_step st evs)). map fst p = form_controls"
proof (induction evs arbitrary: st)
  case Nil
  then show ?case by simp
next
  case (Cons e evs)
  from Cons.prems have "in_form e" by simp
  from card_step_keys [OF this Cons.prems(2,3)] Cons.prems(1) Cons.IH [of "card_step st e"]
  show ?case by simp
qed

text \<open>
  C8. Whatever the user does in the card (changes to the form's controls, Edit and
  Cancel, submissions), every payload handed to \<open>onUpdate\<close> has the keys \<open>full_name\<close>,
  \<open>year\<close> and \<open>block\<close>, in this order and no other: neither \<open>student_number\<close> nor
  \<open>email\<close>. The page sends the payload as it gets it.
\<close>

theorem payload_fields:
  assumes "\<forall>e\<in>set evs. in_form e" and "p \<in> set (submitted u evs)"
  shows "map fst p = [''full_name'', ''year'', ''block''] \<and>
         ''student_number'' \<notin> fst ` set p \<and> ''email'' \<notin> fst ` set p \<and>
         requests (handleUpdateProfile p updated s) = requests s @ [UpdateProfile (access_token s) p]"
proof -
  have "\<forall>p\<in>set (submitted u evs). map fst p = form_controls"
    unfolding submitted_def
    by (rule foldl_card_step_keys [OF assms(1)]) (simp_all add: ProfileCard_def form_controls_def)
  with assms(2) have k: "map fst p = [''full_name'', ''year'', ''block'']"
    by (simp add: form_controls_def)
  have "fst ` set p = set (map fst p)" by simp
  with k have "''student_number'' \<notin> fst ` set p \<and> ''email'' \<notin> fst ` set p" by simp
  moreover have "requests (handleUpdateProfile p updated s) = requests s @ [UpdateProfile (access_token s) p]"
    by (simp add: handleUpdateProfile_def Let_def send_def split: sum.splits)
  ultimately show ?thesis using k by simp
qed

theorem payload_fields_witness:
  "(in_form (ToggleEdit sample_user) \<and> in_form (InputChange ''year'' ''2nd Year'') \<and> in_form Submit) \<and>
   submitted sample_user [ToggleEdit sample_user, InputChange ''year'' ''2nd Year'', Submit] =
     [[(''full_name'', ''Ana Cruz''), (''year'', ''2nd Year''), (''block'', ''A'')]] \<and>
   map fst [(''full_name'', ''Ana Cruz''), (''year'', ''2nd Year''), (''block'', ''A'')] =
     [''full_name'', ''year'', ''block'']"
proof -
  have a: "\<forall>e\<in>set [ToggleEdit sample_user, InputChange ''year'' ''2nd Year'', Submit]. in_form e"
    by (simp add: form_controls_def)
  have s: "submitted sample_user [ToggleEdit sample_user, InputChange ''year'' ''2nd Year'', Submit] =
     [[(''full_name'', ''Ana Cruz''), (''year'', ''2nd Year''), (''block'', ''A'')]]"
    by (simp add: submitted_def ProfileCard_def toggleEdit_def handleInputChange_def handleSubmit_def
        sample_user_def)
  then have m: "[(''full_name'', ''Ana Cruz''), (''year'', ''2nd Year''), (''block'', ''A'')]
      \<in> set (submitted sample_user [ToggleEdit sample_user, InputChange ''year'' ''2nd Year'', Submit])"
    by simp
  from payload_fields [OF a m] a s show ?thesis by simp
qed

subsection \<open>Failures of a request\<close>

text \<open>
  What each handler of the events page does when a request it awaits fails, by the
  kind of the failure. For the service calls the kind is read off the message
  (\<open>auth_failed\<close>), for the two \<open>fetch\<close> calls off the status.
\<close>

lemma fetchData_failure:
  assumes "truthy (token s)"
  shows "\<not> auth_failed msg \<Longrightarrow> error_shown s (fetchData (Inr od) (Inl msg) s)"
    and "auth_failed msg \<Longrightarrow> logged_out s (fetchData (Inr od) (Inl msg) s)"
  using assms
  by (auto simp: fetchData_def Let_def send_def logout_def navigate_def removeItem_def
      error_shown_def logged_out_def)

lemma handleSave_failure:
  "\<not> auth_failed msg \<Longrightarrow> error_shown s (handleSave fd eid (Inl msg) fetched s)"
  "\<not> auth_failed msg \<Longrightarrow> error_shown s (handleSave fd eid (Inr ()) (Inl msg) s)"
  "auth_failed msg \<Longrightarrow> logged_out s (handleSave fd eid (Inl msg) fetched s)"
  "auth_failed msg \<Longrightarrow> logged_out s (handleSave fd eid (Inr ()) (Inl msg) s)"
  by (auto simp: handleSave_def Let_def send_def logout_def navigate_def removeItem_def
      error_shown_def logged_out_def)

lemma confirmArchive_failure:
  "\<not> auth_failed msg \<Longrightarrow> error_shown s (confirmArchive e tok a (Inl msg) fetched s)"
  "\<not> auth_failed msg \<Longrightarrow> error_shown s (confirmArchive e tok a (Inr ()) (Inl msg) s)"
  "auth_failed msg \<Longrightarrow> logged_out s (confirmArchive e tok a (Inl msg) fetched s)"
  "auth_failed msg \<Longrightarrow> logged_out s (confirmArchive e tok a (Inr ()) (Inl msg) s)"
  by (auto simp: confirmArchive_def confirmArchive_settle_def confirmArchive_pending_def
      Let_def send_def logout_def navigate_def removeItem_def error_shown_def logged_out_def)

lemma approval_decline:
  assumes "truthy_id (am_eventId (approvalModal s))"
  shows "requests (handleApprovalSubmit ''decline'' reason responded fetched s) = requests s \<and>
         statusModal (handleApprovalSubmit ''decline'' reason responded fetched s) =
           \<lparr>sm_isOpen = True, sm_title = ''Event Declined'',
            sm_message = ''The event plan has been declined.'' @
              (if truthy reason then '' Reason: '' @ the reason else []),
            sm_type = ''error''\<rparr>"
  using assms by (simp add: handleApprovalSubmit_def Let_def)

lemma approval_approve:
  assumes "truthy_id (am_eventId (approvalModal s))" and "action \<noteq> ''decline''"
  shows "\<exists>rest. requests (handleApprovalSubmit action reason responded fetched s) =
           requests s @ Fetch ''POST'' (ApproveEndpoint (am_eventId (approvalModal s))) (token s) # rest"
    and "unauthorized responded \<Longrightarrow>
           logged_out s (handleApprovalSubmit action reason responded fetched s) \<and>
           statusModal (handleApprovalSubmit action reason responded fetched s) = statusModal s"
    and "\<not> unauthorized responded \<Longrightarrow>
           sm_isOpen (statusModal (handleApprovalSubmit action reason responded fetched s)) \<and>
           sm_type (statusModal (handleApprovalSubmit action reason responded fetched s)) =
             (if accepted responded \<and> \<not> isl fetched then ''success'' else ''error'')"
    and "\<not> unauthorized responded \<Longrightarrow> \<not> accepted responded \<Longrightarrow>
           error_shown s (handleApprovalSubmit action reason responded fetched s)"
    and "accepted responded \<Longrightarrow>
           error_shown s (handleApprovalSubmit action reason responded (Inl msg) s)"
  using assms
  by (auto simp: handleApprovalSubmit_def Let_def send_def logout_def navigate_def removeItem_def
      unauthorized_def accepted_def error_shown_def logged_out_def ok_def
      split: sum.splits option.splits if_splits prod.splits)

lemma participants_failure:
  assumes "truthy_id (event_id e)" and "token s \<noteq> None"
  shows "requests (handleParticipants (Some e) responded s) =
           requests s @ [Fetch ''GET'' (ParticipantsEndpoint (event_id e)) (token s)]"
    and "participants_failed responded \<Longrightarrow> \<not> unauthorized responded \<Longrightarrow>
           showParticipantsModal (handleParticipants (Some e) responded s) \<and>
           participants (handleParticipants (Some e) responded s) = JArray [] \<and>
           error_shown s (handleParticipants (Some e) responded s)"
    and "unauthorized responded \<Longrightarrow>
           showParticipantsModal (handleParticipants (Some e) responded s) = showParticipantsModal s \<and>
           participants (handleParticipants (Some e) responded s) = participants s \<and>
           logged_out s (handleParticipants (Some e) responded s)"
  using assms
  by (auto simp: handleParticipants_def Let_def send_def logout_def navigate_def removeItem_def
      participants_failed_def unauthorized_def error_shown_def logged_out_def ok_def
      split: sum.splits option.splits if_splits)

lemma handleUpdateProfile_failure:
  "sm_isOpen (modalState (handleUpdateProfile d (Inl msg) p)) \<and>
   sm_type (modalState (handleUpdateProfile d (Inl msg) p)) = ''error'' \<and>
   localStorage (handleUpdateProfile d (Inl msg) p) = localStorage p \<and>
   navigations (handleUpdateProfile d (Inl msg) p) = navigations p"
  by (simp add: handleUpdateProfile_def Let_def send_def)

lemma fetchProfile_failure:
  "truthy (access_token p) \<Longrightarrow>
   localStorage (fetchProfile (Inl msg) p) =
     (localStorage p)(''access_token'' := None, ''user_id'' := None) \<and>
   navigations (fetchProfile (Inl msg) p) = navigations p @ [''/''] \<and>
   modalState (fetchProfile (Inl msg) p) = modalState p"
  by (simp add: fetchProfile_def Let_def send_def navigate_def removeItem_def)

lemma sample_facts:
  "truthy (token sample_page)" "token sample_page \<noteq> None"
  "token (handleApproveEvent (Some 5) sample_page) \<noteq> None"
  "truthy (token (handleApproveEvent (Some 5) sample_page))"
  "truthy_id (am_eventId (approvalModal (handleApproveEvent (Some 5) sample_page)))"
  "truthy_id (event_id sample_event)"
  "truthy (access_token sample_profile_page)"
  by (simp_all add: sample_page_def sample_store_def sample_event_def sample_profile_page_def
      OfficerManageEventsPage_def ProfilePage_def handleApproveEvent_def
      getItem_def truthy_def truthy_id_def)

lemma sample_responses:
  "\<not> accepted (Inr \<lparr>status = 500, body = Inr (JObject (Some ''boom''))\<rparr>)"
  "\<not> unauthorized (Inr \<lparr>status = 500, body = Inr (JObject (Some ''boom''))\<rparr>)"
  "participants_failed (Inr \<lparr>status = 500, body = Inr (JObject (Some ''boom''))\<rparr>)"
  "unauthorized (Inr \<lparr>status = 401, body = Inr (JObject None)\<rparr>)"
  "participants_failed (Inr \<lparr>status = 401, body = Inr (JObject None)\<rparr>)"
  "accepted (Inr \<lparr>status = 200, body = Inr (JObject None)\<rparr>)"
  "\<not> unauthorized (Inr \<lparr>status = 200, body = Inr (JObject None)\<rparr>)"
  by (simp_all add: accepted_def unauthorized_def participants_failed_def ok_def)

text \<open>
  Six of the seven operations log out when their request fails for want of a valid
  token: the handlers of the events page remove both credentials and navigate to the
  officer login, and a failed fetch of the profile removes the user's credentials and
  navigates to the login page.
\<close>

lemma unauthorized_logs_out:
  assumes "auth_failed msg"
  shows
    "(truthy (token s) \<longrightarrow> logged_out s (fetchData (Inr od) (Inl msg) s)) \<and>
     logged_out s (handleSave fd eid (Inl msg) fetched s) \<and>
     logged_out s (handleSave fd eid (Inr ()) (Inl msg) s) \<and>
     logged_out s (confirmArchive e tok a (Inl msg) fetched s) \<and>
     logged_out s (confirmArchive e tok a (Inr ()) (Inl msg) s) \<and>
     (truthy_id (am_eventId (approvalModal s)) \<and> action \<noteq> ''decline'' \<and> unauthorized responded \<longrightarrow>
        logged_out s (handleApprovalSubmit action reason responded fetched s)) \<and>
     (truthy_id (event_id ev) \<and> token s \<noteq> None \<and> unauthorized responded \<longrightarrow>
        logged_out s (handleParticipants (Some ev) responded s)) \<and>
     (truthy (access_token p) \<longrightarrow>
        localStorage (fetchProfile (Inl msg) p) =
          (localStorage p)(''access_token'' := None, ''user_id'' := None) \<and>
        navigations (fetchProfile (Inl msg) p) = navigations p @ [''/''])"
proof -
  have "truthy (token s) \<longrightarrow> logged_out s (fetchData (Inr od) (Inl msg) s)"
    using fetchData_failure(2) assms by blast
  moreover have "logged_out s (handleSave fd eid (Inl msg) fetched s)"
    and "logged_out s (handleSave fd eid (Inr ()) (Inl msg) s)"
    using handleSave_failure(3,4) assms by blast+
  moreover have "logged_out s (confirmArchive e tok a (Inl msg) fetched s)"
    and "logged_out s (confirmArchive e tok a (Inr ()) (Inl msg) s)"
    using confirmArchive_failure(3,4) assms by blast+
  moreover have "truthy_id (am_eventId (approvalModal s)) \<and> action \<noteq> ''decline'' \<and>
      unauthorized responded \<longrightarrow>
        logged_out s (handleApprovalSubmit action reason responded fetched s)"
    using approval_approve(2) by blast
  moreover have "truthy_id (event_id ev) \<and> token s \<noteq> None \<and> unauthorized responded \<longrightarrow>
        logged_out s (handleParticipants (Some ev) responded s)"
    using participants_failure(3) by blast
  ultimately show ?thesis
    using fetchProfile_failure [of p msg] by blast
qed

text \<open>
  C1. An update of the profile that fails with a 401 message leaves both credentials
  in the storage and does not navigate: the page shows the update-failed modal.
\<close>

theorem update_profile_unauthorized:
  "auth_failed ''HTTP error! status: 401'' \<and>
   localStorage (handleUpdateProfile [(''full_name'', ''Ana Cruz''), (''year'', ''2nd Year''), (''block'', ''A'')]
      (Inl ''HTTP error! status: 401'') sample_profile_page) ''access_token'' = Some ''tok'' \<and>
   localStorage (handleUpdateProfile [(''full_name'', ''Ana Cruz''), (''year'', ''2nd Year''), (''block'', ''A'')]
      (Inl ''HTTP error! status: 401'') sample_profile_page) ''user_id'' = Some ''7'' \<and>
   navigations (handleUpdateProfile [(''full_name'', ''Ana Cruz''), (''year'', ''2nd Year''), (''block'', ''A'')]
      (Inl ''HTTP error! status: 401'') sample_profile_page) = [] \<and>
   sm_title (modalState (handleUpdateProfile [(''full_name'', ''Ana Cruz''), (''year'', ''2nd Year''), (''block'', ''A'')]
      (Inl ''HTTP error! status: 401'') sample_profile_page)) = ''Profile Update Failed''"
  by (simp add: auth_failed_def handleUpdateProfile_def Let_def send_def
      sample_profile_page_def ProfilePage_def)

text \<open>
  The re-fetch that follows a successful approval is not covered either: when it fails,
  with whatever message, the page shows the error modal and stays logged in.
\<close>

lemma approve_refetch_unauthorized:
  "auth_failed ''Invalid or expired token'' \<and>
   error_shown (handleApproveEvent (Some 5) sample_page)
     (handleApprovalSubmit ''approve'' None (Inr \<lparr>status = 200, body = Inr (JObject None)\<rparr>)
        (Inl ''Invalid or expired token'') (handleApproveEvent (Some 5) sample_page))"
  using approval_approve(5) [OF sample_facts(5), of "''approve''"
      "Inr \<lparr>status = 200, body = Inr (JObject None)\<rparr>" None "''Invalid or expired token''"]
  by (simp add: auth_failed_def sample_responses)

text \<open>
  C2, as stated, fails: a profile fetch that fails with a message that is no 401
  clears the credentials and redirects, and opens no status modal.
\<close>

theorem fetch_profile_failure_counterexample:
  "\<not> auth_failed ''Network Error'' \<and>
   localStorage (fetchProfile (Inl ''Network Error'') sample_profile_page) ''access_token'' = None \<and>
   localStorage (fetchProfile (Inl ''Network Error'') sample_profile_page) ''user_id'' = None \<and>
   navigations (fetchProfile (Inl ''Network Error'') sample_profile_page) = [''/''] \<and>
   \<not> sm_isOpen (modalState (fetchProfile (Inl ''Network Error'') sample_profile_page))"
  by (simp add: auth_failed_def fetchProfile_def Let_def send_def navigate_def removeItem_def
      sample_profile_page_def ProfilePage_def getItem_def truthy_def)

text \<open>
  C2, amended. For fetching events, saving, archiving, approving, fetching participants
  and updating the profile, a failure of a request that is no 401 or invalid-token
  failure opens an error-type status modal and neither changes the storage nor
  navigates. A failed fetch of the profile, whatever the failure, removes the
  credentials and navigates to the login page, and leaves the status modal as it was.
\<close>

theorem other_failures_show_error:
  assumes "\<not> auth_failed msg"
  shows
    "(truthy (token s) \<longrightarrow> error_shown s (fetchData (Inr od) (Inl msg) s)) \<and>
     error_shown s (handleSave fd eid (Inl msg) fetched s) \<and>
     error_shown s (handleSave fd eid (Inr ()) (Inl msg) s) \<and>
     error_shown s (confirmArchive e tok a (Inl msg) fetched s) \<and>
     error_shown s (confirmArchive e tok a (Inr ()) (Inl msg) s) \<and>
     (truthy_id (am_eventId (approvalModal s)) \<and> action \<noteq> ''decline'' \<and>
      \<not> accepted responded \<and> \<not> unauthorized responded \<longrightarrow>
        error_shown s (handleApprovalSubmit action reason responded fetched s)) \<and>
     (truthy_id (am_eventId (approvalModal s)) \<and> action \<noteq> ''decline'' \<and> accepted responded \<longrightarrow>
        error_shown s (handleApprovalSubmit action reason responded (Inl msg) s)) \<and>
     (truthy_id (event_id ev) \<and> token s \<noteq> None \<and>
      participants_failed responded \<and> \<not> unauthorized responded \<longrightarrow>
        error_shown s (handleParticipants (Some ev) responded s)) \<and>
     (sm_isOpen (modalState (handleUpdateProfile d (Inl msg) p)) \<and>
      sm_type (modalState (handleUpdateProfile d (Inl msg) p)) = ''error'' \<and>
      localStorage (handleUpdateProfile d (Inl msg) p) = localStorage p \<and>
      navigations (handleUpdateProfile d (Inl msg) p) = navigations p) \<and>
     (truthy (access_token p) \<longrightarrow>
        localStorage (fetchProfile (Inl msg) p) =
          (localStorage p)(''access_token'' := None, ''user_id'' := None) \<and>
        navigations (fetchProfile (Inl msg) p) = navigations p @ [''/''] \<and>
        modalState (fetchProfile (Inl msg) p) = modalState p)"
proof -
  have "truthy (token s) \<longrightarrow> error_shown s (fetchData (Inr od) (Inl msg) s)"
    using fetchData_failure(1) assms by blast
  moreover have "error_shown s (handleSave fd eid (Inl msg) fetched s)"
    and "error_shown s (handleSave fd eid (Inr ()) (Inl msg) s)"
    using handleSave_failure(1,2) assms by blast+
  moreover have "error_shown s (confirmArchive e tok a (Inl msg) fetched s)"
    and "error_shown s (confirmArchive e tok a (Inr ()) (Inl msg) s)"
    using confirmArchive_failure(1,2) assms by blast+
  moreover have "truthy_id (am_eventId (approvalModal s)) \<and> action \<noteq> ''decline'' \<and>
      \<not> accepted responded \<and> \<not> unauthorized responded \<longrightarrow>
        error_shown s (handleApprovalSubmit action reason responded fetched s)"
    using approval_approve(4) by blast
  moreover have "truthy_id (am_eventId (approvalModal s)) \<and> action \<noteq> ''decline'' \<and>
      accepted responded \<longrightarrow>
        error_shown s (handleApprovalSubmit action reason responded (Inl msg) s)"
    using approval_approve(5) by blast
  moreover have "truthy_id (event_id ev) \<and> token s \<noteq> None \<and>
      participants_failed responded \<and> \<not> unauthorized responded \<longrightarrow>
        error_shown s (handleParticipants (Some ev) responded s)"
    using participants_failure(2) by blast
  ultimately show ?thesis
    using handleUpdateProfile_failure [of d msg p] fetchProfile_failure [of p msg] by blast
qed

theorem other_failures_show_error_witness:
  "\<not> auth_failed ''Network Error'' \<and>
   truthy (token (handleApproveEvent (Some 5) sample_page)) \<and>
   error_shown (handleApproveEvent (Some 5) sample_page)
     (fetchData (Inr None) (Inl ''Network Error'') (handleApproveEvent (Some 5) sample_page)) \<and>
   error_shown (handleApproveEvent (Some 5) sample_page)
     (handleSave [] None (Inl ''Network Error'') (Inr []) (handleApproveEvent (Some 5) sample_page)) \<and>
   error_shown (handleApproveEvent (Some 5) sample_page)
     (confirmArchive (Some 5) (Some ''tok'') False (Inl ''Network Error'') (Inr [])
        (handleApproveEvent (Some 5) sample_page)) \<and>
   error_shown (handleApproveEvent (Some 5) sample_page)
     (handleApprovalSubmit ''approve'' None (Inr \<lparr>status = 500, body = Inr (JObject (Some ''boom''))\<rparr>)
        (Inr []) (handleApproveEvent (Some 5) sample_page)) \<and>
   error_shown (handleApproveEvent (Some 5) sample_page)
     (handleParticipants (Some sample_event)
        (Inr \<lparr>status = 500, body = Inr (JObject (Some ''boom''))\<rparr>)
        (handleApproveEvent (Some 5) sample_page)) \<and>
   sm_type (modalState (handleUpdateProfile [] (Inl ''Network Error'') sample_profile_page)) = ''error'' \<and>
   truthy (access_token sample_profile_page) \<and>
   navigations (fetchProfile (Inl ''Network Error'') sample_profile_page) =
     navigations sample_profile_page @ [''/'']"
proof -
  have n: "\<not> auth_failed ''Network Error''" by (simp add: auth_failed_def)
  have d: "''approve'' \<noteq> ''decline''" by simp
  from other_failures_show_error [OF n, of "handleApproveEvent (Some 5) sample_page" None "[]" None
      "Inr []" "Some 5" "Some ''tok''" False "''approve''"
      "Inr \<lparr>status = 500, body = Inr (JObject (Some ''boom''))\<rparr>" None sample_event "[]"
      sample_profile_page]
    n d sample_facts sample_responses
  show ?thesis by simp
qed

text \<open>
  C4, as stated, fails: when the participants fetch fails with status 401, the
  participants modal is not opened.
\<close>

theorem participants_unauthorized_counterexample:
  "participants_failed (Inr \<lparr>status = 401, body = Inr (JObject None)\<rparr>) \<and>
   \<not> showParticipantsModal
       (handleParticipants (Some sample_event) (Inr \<lparr>status = 401, body = Inr (JObject None)\<rparr>)
          sample_page)"
  by (simp add: participants_failed_def ok_def handleParticipants_def sample_event_def truthy_id_def
      sample_page_def OfficerManageEventsPage_def getItem_def sample_store_def Let_def
      send_def logout_def navigate_def removeItem_def)

text \<open>
  C4, amended. A participants fetch that fails otherwise than with status 401 (the
  fetch rejects, the status is another error status, or the body does not parse) opens
  the participants modal with the empty list. With status 401 the credentials are
  removed, the page navigates to the login page, and the participants modal and list
  stay as they were.
\<close>

theorem participants_fetch_failure:
  assumes "truthy_id (event_id e)" and "token s \<noteq> None"
  shows
    "requests (handleParticipants (Some e) responded s) =
       requests s @ [Fetch ''GET'' (ParticipantsEndpoint (event_id e)) (token s)] \<and>
     (participants_failed responded \<and> \<not> unauthorized responded \<longrightarrow>
        showParticipantsModal (handleParticipants (Some e) responded s) \<and>
        participants (handleParticipants (Some e) responded s) = JArray []) \<and>
     (unauthorized responded \<longrightarrow>
        showParticipantsModal (handleParticipants (Some e) responded s) = showParticipantsModal s \<and>
        participants (handleParticipants (Some e) responded s) = participants s \<and>
        logged_out s (handleParticipants (Some e) responded s))"
  using participants_failure [OF assms, of responded] by blast

theorem participants_fetch_failure_witness:
  "truthy_id (event_id sample_event) \<and> token sample_page \<noteq> None \<and>
   participants_failed (Inr \<lparr>status = 500, body = Inr (JObject (Some ''boom''))\<rparr>) \<and>
   \<not> unauthorized (Inr \<lparr>status = 500, body = Inr (JObject (Some ''boom''))\<rparr>) \<and>
   showParticipantsModal (handleParticipants (Some sample_event)
     (Inr \<lparr>status = 500, body = Inr (JObject (Some ''boom''))\<rparr>) sample_page) \<and>
   participants (handleParticipants (Some sample_event)
     (Inr \<lparr>status = 500, body = Inr (JObject (Some ''boom''))\<rparr>) sample_page) = JArray [] \<and>
   unauthorized (Inr \<lparr>status = 401, body = Inr (JObject None)\<rparr>) \<and>
   logged_out sample_page (handleParticipants (Some sample_event)
     (Inr \<lparr>status = 401, body = Inr (JObject None)\<rparr>) sample_page)"
  using participants_fetch_failure [OF sample_facts(6) sample_facts(2),
      of "Inr \<lparr>status = 500, body = Inr (JObject (Some ''boom''))\<rparr>"]
    participants_fetch_failure [OF sample_facts(6) sample_facts(2),
      of "Inr \<lparr>status = 401, body = Inr (JObject None)\<rparr>"]
    sample_facts sample_responses
  by simp

text \<open>
  C6, as stated, fails: an approval answered with status 401 shows no status modal,
  and a submission for an event whose id is 0 (a falsy id) sends nothing and shows no
  status modal, whatever the action.
\<close>

theorem approval_submission_counterexample:
  "requests (handleApprovalSubmit ''approve'' None (Inr \<lparr>status = 401, body = Inr (JObject None)\<rparr>)
      (Inr []) (handleApproveEvent (Some 5) sample_page)) =
     [Fetch ''POST'' (ApproveEndpoint (Some 5)) (Some ''tok'')] \<and>
   \<not> sm_isOpen (statusModal (handleApprovalSubmit ''approve'' None
      (Inr \<lparr>status = 401, body = Inr (JObject None)\<rparr>) (Inr [])
      (handleApproveEvent (Some 5) sample_page))) \<and>
   requests (handleApprovalSubmit ''approve'' None
      (Inr \<lparr>status = 200, body = Inr (JObject None)\<rparr>) (Inr [])
      (handleApproveEvent (Some 0) sample_page)) = [] \<and>
   \<not> sm_isOpen (statusModal (handleApprovalSubmit ''decline'' (Some ''late'')
      (Inr \<lparr>status = 200, body = Inr (JObject None)\<rparr>) (Inr [])
      (handleApproveEvent (Some 0) sample_page)))"
  by (simp add: handleApprovalSubmit_def handleApproveEvent_def truthy_id_def ok_def Let_def
      sample_page_def OfficerManageEventsPage_def getItem_def sample_store_def
      send_def logout_def navigate_def removeItem_def)

text \<open>
  C6, amended. For a submission while the approval modal holds an event id: the action
  \<open>decline\<close> sends nothing and opens the status modal that reports the decline, with
  the reason when one is given; any other action sends a POST to the approve endpoint
  of the event, and then, unless the answer has status 401 (which logs out and leaves
  the status modal as it was), the status modal is open, of type success when the
  approval and the re-fetch of the list both succeeded and of type error otherwise.
  A submission while the modal holds no such id (none, or 0) only closes the approval
  modal.
\<close>

theorem approval_submission:
  "(\<not> truthy_id (am_eventId (approvalModal s)) \<longrightarrow>
      handleApprovalSubmit action reason responded fetched s = closeApprovalModal s) \<and>
   (truthy_id (am_eventId (approvalModal s)) \<longrightarrow>
      (action = ''decline'' \<longrightarrow>
         requests (handleApprovalSubmit action reason responded fetched s) = requests s \<and>
         statusModal (handleApprovalSubmit action reason responded fetched s) =
           \<lparr>sm_isOpen = True, sm_title = ''Event Declined'',
            sm_message = ''The event plan has been declined.'' @
              (if truthy reason then '' Reason: '' @ the reason else []),
            sm_type = ''error''\<rparr>) \<and>
      (action \<noteq> ''decline'' \<longrightarrow>
         (\<exists>rest. requests (handleApprovalSubmit action reason responded fetched s) =
            requests s @ Fetch ''POST'' (ApproveEndpoint (am_eventId (approvalModal s))) (token s) # rest) \<and>
         (unauthorized responded \<longrightarrow>
            logged_out s (handleApprovalSubmit action reason responded fetched s) \<and>
            statusModal (handleApprovalSubmit action reason responded fetched s) = statusModal s) \<and>
         (\<not> unauthorized responded \<longrightarrow>
            sm_isOpen (statusModal (handleApprovalSubmit action reason responded fetched s)) \<and>
            sm_type (statusModal (handleApprovalSubmit action reason responded fetched s)) =
              (if accepted responded \<and> \<not> isl fetched then ''success'' else ''error''))))"
proof (cases "truthy_id (am_eventId (approvalModal s))")
  case False
  then show ?thesis
    by (simp add: handleApprovalSubmit_def closeApprovalModal_def Let_def)
next
  case held: True
  show ?thesis
  proof (cases "action = ''decline''")
    case True
    with held approval_decline
      [OF held, where reason = reason and responded = responded and fetched = fetched]
    show ?thesis by simp
  next
    case False
    note approve = approval_approve(1,2,3)
      [OF held False, where reason = reason and responded = responded and fetched = fetched]
    from approve(1) obtain rest
      where "requests (handleApprovalSubmit action reason responded fetched s) =
        requests s @ Fetch ''POST'' (ApproveEndpoint (am_eventId (approvalModal s))) (token s) # rest"
      by blast
    with held False approve(2,3) show ?thesis by simp
  qed
qed

theorem approval_submission_witness:
  "\<not> truthy_id (am_eventId (approvalModal (handleApproveEvent (Some 0) sample_page))) \<and>
   handleApprovalSubmit ''decline'' (Some ''late'')
      (Inr \<lparr>status = 200, body = Inr (JObject None)\<rparr>) (Inr [])
      (handleApproveEvent (Some 0) sample_page) =
     closeApprovalModal (handleApproveEvent (Some 0) sample_page) \<and>
   truthy_id (am_eventId (approvalModal (handleApproveEvent (Some 5) sample_page))) \<and>
   requests (handleApprovalSubmit ''decline'' (Some ''late'')
      (Inr \<lparr>status = 200, body = Inr (JObject None)\<rparr>) (Inr [])
      (handleApproveEvent (Some 5) sample_page)) = [] \<and>
   sm_message (statusModal (handleApprovalSubmit ''decline'' (Some ''late'')
      (Inr \<lparr>status = 200, body = Inr (JObject None)\<rparr>) (Inr [])
      (handleApproveEvent (Some 5) sample_page))) =
     ''The event plan has been declined. Reason: late'' \<and>
   sm_type (statusModal (handleApprovalSubmit ''approve'' None
      (Inr \<lparr>status = 200, body = Inr (JObject None)\<rparr>) (Inr [])
      (handleApproveEvent (Some 5) sample_page))) = ''success'' \<and>
   sm_type (statusModal (handleApprovalSubmit ''approve'' None
      (Inr \<lparr>status = 500, body = Inr (JObject (Some ''boom''))\<rparr>) (Inr [])
      (handleApproveEvent (Some 5) sample_page))) = ''error'' \<and>
   logged_out (handleApproveEvent (Some 5) sample_page)
     (handleApprovalSubmit ''approve'' None
        (Inr \<lparr>status = 401, body = Inr (JObject None)\<rparr>) (Inr [])
        (handleApproveEvent (Some 5) sample_page))"
proof -
  have d: "''approve'' \<noteq> ''decline''" by simp
  have r: "requests (handleApproveEvent (Some 5) sample_page) = []"
    by (simp add: handleApproveEvent_def sample_page_def OfficerManageEventsPage_def)
  have t: "truthy (Some ''late'')" by (simp add: truthy_def)
  have n: "\<not> truthy_id (am_eventId (approvalModal (handleApproveEvent (Some 0) sample_page)))"
    by (simp add: handleApproveEvent_def truthy_id_def)
  from approval_submission [of "handleApproveEvent (Some 0) sample_page" "''decline''" "Some ''late''"
      "Inr \<lparr>status = 200, body = Inr (JObject None)\<rparr>" "Inr []"]
    approval_submission [of "handleApproveEvent (Some 5) sample_page" "''decline''" "Some ''late''"
      "Inr \<lparr>status = 200, body = Inr (JObject None)\<rparr>" "Inr []"]
    approval_submission [of "handleApproveEvent (Some 5) sample_page" "''approve''" None
      "Inr \<lparr>status = 200, body = Inr (JObject None)\<rparr>" "Inr []"]
    approval_submission [of "handleApproveEvent (Some 5) sample_page" "''approve''" None
      "Inr \<lparr>status = 500, body = Inr (JObject (Some ''boom''))\<rparr>" "Inr []"]
    approval_submission [of "handleApproveEvent (Some 5) sample_page" "''approve''" None
      "Inr \<lparr>status = 401, body = Inr (JObject None)\<rparr>" "Inr []"]
    d r t n sample_facts(5) sample_responses
  show ?thesis by simp
qed

subsection \<open>Truncating a text\<close>

text \<open>
  C9. \<open>truncateText\<close> returns the empty string for an absent (falsy) text, the text
  itself when its length is at most \<open>maxLength\<close>, and otherwise its first \<open>maxLength\<close>
  characters followed by three dots; the result is never longer than \<open>maxLength + 3\<close>.
\<close>

theorem truncateText_spec:
  "truncateText None n = [] \<and>
   truncateText (Some []) n = [] \<and>
   (length t \<le> n \<longrightarrow> truncateText (Some t) n = t) \<and>
   (n < length t \<longrightarrow> truncateText (Some t) n = take n t @ ''...'') \<and>
   length (truncateText tx n) \<le> n + 3"
  by (cases tx) (auto simp: truncateText_def truthy_def)

theorem truncateText_spec_witness:
  "truncateText None 4 = [] \<and>
   truncateText (Some []) 4 = [] \<and>
   truncateText (Some ''Gala'') 4 = ''Gala'' \<and>
   truncateText (Some ''General Assembly'') 4 = ''Gene...'' \<and>
   length (truncateText (Some ''General Assembly'') 4) \<le> 4 + 3"
  using truncateText_spec [of 4 "''Gala''" "Some ''General Assembly''"]
    truncateText_spec [of 4 "''General Assembly''" "Some ''General Assembly''"]
  by simp

end
